theory Spec2Isabelle
  imports Main
begin

section \<open>The configuration record (frontend/app-config.ts)\<close>

text \<open>
  The values a field of the configuration can hold at run time. TypeScript's types are
  erased when the program runs, so the object literal is embedded as what it is then: a
  list of named properties, each holding a JavaScript value; the interface
  \<open>AppConfig\<close> is embedded as the predicate that says which objects have its shape.
\<close>

datatype js_value = JUndefined | JNull | JBoolean bool | JString string

type_synonym js_object = "(string \<times> js_value) list"

text \<open>\<open>obj.k\<close>: the value of the property, \<open>undefined\<close> when the object has none.\<close>

definition js_prop :: "js_object \<Rightarrow> string \<Rightarrow> js_value" where
  "js_prop obj k = (case map_of obj k of None \<Rightarrow> JUndefined | Some v \<Rightarrow> v)"

text \<open>
  \<open>process.env\<close>: a variable is set to a string or it is absent. Reading an absent
  variable gives \<open>undefined\<close>.
\<close>

type_synonym process_env = "string \<rightharpoonup> string"

definition env_get :: "process_env \<Rightarrow> string \<Rightarrow> js_value" where
  "env_get env k = (case env k of None \<Rightarrow> JUndefined | Some s \<Rightarrow> JString s)"

text \<open>\<open>a ?? b\<close>: \<open>b\<close> when \<open>a\<close> is \<open>null\<close> or \<open>undefined\<close>, otherwise \<open>a\<close>.\<close>

definition nullish :: "js_value \<Rightarrow> js_value \<Rightarrow> js_value" where
  "nullish a b = (if a = JNull \<or> a = JUndefined then b else a)"

text \<open>
  The exported constant. It is evaluated once, when the module is loaded, in the process
  environment of that moment: the model is a function of that environment.
\<close>

definition APP_CONFIG_DEFAULTS :: "process_env \<Rightarrow> js_object" where
  "APP_CONFIG_DEFAULTS env =
    [ (''companyName'', JString ''Trading Assistant''),
      (''pageTitle'', JString ''AI Trading Assistant''),
      (''pageDescription'', JString ''Your personal voice-powered portfolio analyst''),

      (''supportsChatInput'', JBoolean True),
      (''supportsVideoInput'', JBoolean False),
      (''supportsScreenShare'', JBoolean False),
      (''isPreConnectBufferEnabled'', JBoolean True),

      (''logo'', JString ''/lk-logo.svg''),
      (''accent'', JString ''#16a34a''),
      (''logoDark'', JString ''/lk-logo-dark.svg''),
      (''accentDark'', JString ''#4ade80''),
      (''startButtonText'', JString ''Analyse my portfolio''),

      (''agentName'', nullish (env_get env ''AGENT_NAME'') JUndefined),

      (''sandboxId'', JUndefined) ]"






section \<open>The welcome screen (WelcomeImage, WelcomeView)\<close>

text \<open>
  The markup a component returns: a tree of text and elements. An element is a host tag
  (\<open>div\<close>, \<open>svg\<close>, ...) or a component referred to by name, with its attributes in
  the order of the source and its children. An attribute holds a string, an event handler
  or a ref. The types \<open>'h\<close> of handlers and \<open>'r\<close> of refs (a ref object, a ref
  callback or \<open>undefined\<close>) are left open: the component only passes them on.
\<close>

datatype elem_type = Host string | Component string

datatype ('h, 'r) prop_value = Str string | Handler 'h | Ref 'r

datatype ('h, 'r) node =
    Text string
  | Element elem_type "(string \<times> ('h, 'r) prop_value) list" "('h, 'r) node list"

text \<open>
  The two characters of the source's texts outside ASCII, as the bytes of the source file
  (UTF-8): the dash U+2014 and the middle dot U+00B7.
\<close>

definition em_dash :: string where
  "em_dash = [CHR 0xE2, CHR 0x80, CHR 0x94]"

definition middle_dot :: string where
  "middle_dot = [CHR 0xC2, CHR 0xB7]"

text \<open>\<open>WelcomeImage()\<close>: the candlestick icon. It takes no props.\<close>

definition WelcomeImage :: "('h, 'r) node" where
  "WelcomeImage =
    Element (Host ''svg'')
      [ (''width'', Str ''64''), (''height'', Str ''64''), (''viewBox'', Str ''0 0 64 64''),
        (''fill'', Str ''none''), (''xmlns'', Str ''http://www.w3.org/2000/svg''),
        (''className'', Str ''text-fg0 mb-4 size-16'') ]
      [ Element (Host ''line'')
          [ (''x1'', Str ''12''), (''y1'', Str ''8''), (''x2'', Str ''12''), (''y2'', Str ''16''),
            (''stroke'', Str ''currentColor''), (''strokeWidth'', Str ''2''),
            (''strokeLinecap'', Str ''round'') ] [],
        Element (Host ''rect'')
          [ (''x'', Str ''8''), (''y'', Str ''16''), (''width'', Str ''8''), (''height'', Str ''14''),
            (''rx'', Str ''1''), (''fill'', Str ''currentColor''), (''opacity'', Str ''0.4'') ] [],
        Element (Host ''line'')
          [ (''x1'', Str ''12''), (''y1'', Str ''30''), (''x2'', Str ''12''), (''y2'', Str ''38''),
            (''stroke'', Str ''currentColor''), (''strokeWidth'', Str ''2''),
            (''strokeLinecap'', Str ''round'') ] [],
        Element (Host ''line'')
          [ (''x1'', Str ''28''), (''y1'', Str ''12''), (''x2'', Str ''28''), (''y2'', Str ''20''),
            (''stroke'', Str ''currentColor''), (''strokeWidth'', Str ''2''),
            (''strokeLinecap'', Str ''round'') ] [],
        Element (Host ''rect'')
          [ (''x'', Str ''24''), (''y'', Str ''20''), (''width'', Str ''8''), (''height'', Str ''18''),
            (''rx'', Str ''1''), (''fill'', Str ''currentColor'') ] [],
        Element (Host ''line'')
          [ (''x1'', Str ''28''), (''y1'', Str ''38''), (''x2'', Str ''28''), (''y2'', Str ''46''),
            (''stroke'', Str ''currentColor''), (''strokeWidth'', Str ''2''),
            (''strokeLinecap'', Str ''round'') ] [],
        Element (Host ''line'')
          [ (''x1'', Str ''44''), (''y1'', Str ''6''), (''x2'', Str ''44''), (''y2'', Str ''14''),
            (''stroke'', Str ''currentColor''), (''strokeWidth'', Str ''2''),
            (''strokeLinecap'', Str ''round'') ] [],
        Element (Host ''rect'')
          [ (''x'', Str ''40''), (''y'', Str ''14''), (''width'', Str ''8''), (''height'', Str ''12''),
            (''rx'', Str ''1''), (''fill'', Str ''currentColor''), (''opacity'', Str ''0.4'') ] [],
        Element (Host ''line'')
          [ (''x1'', Str ''44''), (''y1'', Str ''26''), (''x2'', Str ''44''), (''y2'', Str ''34''),
            (''stroke'', Str ''currentColor''), (''strokeWidth'', Str ''2''),
            (''strokeLinecap'', Str ''round'') ] [],
        Element (Host ''line'')
          [ (''x1'', Str ''56''), (''y1'', Str ''18''), (''x2'', Str ''56''), (''y2'', Str ''24''),
            (''stroke'', Str ''currentColor''), (''strokeWidth'', Str ''2''),
            (''strokeLinecap'', Str ''round'') ] [],
        Element (Host ''rect'')
          [ (''x'', Str ''52''), (''y'', Str ''24''), (''width'', Str ''8''), (''height'', Str ''20''),
            (''rx'', Str ''1''), (''fill'', Str ''currentColor'') ] [],
        Element (Host ''line'')
          [ (''x1'', Str ''56''), (''y1'', Str ''44''), (''x2'', Str ''56''), (''y2'', Str ''52''),
            (''stroke'', Str ''currentColor''), (''strokeWidth'', Str ''2''),
            (''strokeLinecap'', Str ''round'') ] [],
        Element (Host ''line'')
          [ (''x1'', Str ''4''), (''y1'', Str ''58''), (''x2'', Str ''60''), (''y2'', Str ''58''),
            (''stroke'', Str ''currentColor''), (''strokeWidth'', Str ''2''),
            (''strokeLinecap'', Str ''round''), (''opacity'', Str ''0.3'') ] [] ]"

text \<open>
  The props of \<open>WelcomeView\<close>, of type \<open>React.ComponentProps<'div'> & WelcomeViewProps\<close>:
  the label, the callback, the ref, and whatever other \<open>div\<close> props the caller passes
  (\<open>divProps\<close>; the component destructures the first three only).
\<close>

record ('h, 'r) WelcomeViewProps =
  startButtonText :: string
  onStartCall :: 'h
  ref :: 'r
  divProps :: "(string \<times> ('h, 'r) prop_value) list"

text \<open>
  \<open>WelcomeView(props)\<close>. \<open><WelcomeImage />\<close> stands for the markup \<open>WelcomeImage()\<close>
  returns. \<open>Button\<close> is imported from \<open>@/components/ui/button\<close>, which is not part of
  the sources at hand: it stays an element named \<open>Button\<close>, with the attributes and the
  child the source gives it. Text between tags is trimmed as JSX does.
\<close>

definition WelcomeView :: "('h, 'r) WelcomeViewProps \<Rightarrow> ('h, 'r) node" where
  "WelcomeView props =
    Element (Host ''div'') [ (''ref'', Ref (ref props)) ]
      [ Element (Host ''section'')
          [ (''className'',
              Str ''bg-background flex flex-col items-center justify-center text-center'') ]
          [ WelcomeImage,
            Element (Host ''h1'')
              [ (''className'', Str ''text-foreground text-xl font-semibold tracking-tight'') ]
              [ Text ''AI Trading Assistant'' ],
            Element (Host ''p'')
              [ (''className'', Str ''text-muted-foreground max-w-xs pt-1 text-sm leading-6'') ]
              [ Text (''Ask about your portfolio, analyse your trades, check live prices, or create a new pie ''
                      @ em_dash @ '' all by voice.'') ],
            Element (Component ''Button'')
              [ (''size'', Str ''lg''),
                (''onClick'', Handler (onStartCall props)),
                (''className'',
                  Str ''mt-6 w-64 rounded-full font-mono text-xs font-bold tracking-wider uppercase'') ]
              [ Text (startButtonText props) ] ],
        Element (Host ''div'')
          [ (''className'', Str ''fixed bottom-5 left-0 flex w-full items-center justify-center'') ]
          [ Element (Host ''p'')
              [ (''className'',
                  Str ''text-muted-foreground max-w-prose pt-1 text-xs leading-5 font-normal text-pretty md:text-sm'') ]
              [ Text (''Powered by Trading 212 '' @ middle_dot @ '' For informational use only ''
                      @ middle_dot @ '' Not financial advice.'') ] ] ]"

section \<open>Reading a piece of markup\<close>

text \<open>The texts of a tree, in document order, and the text an element shows.\<close>

fun texts_of :: "('h, 'r) node \<Rightarrow> string list" where
  "texts_of (Text s) = [s]"
| "texts_of (Element ty ps cs) = concat (map texts_of cs)"

definition text_content :: "('h, 'r) node \<Rightarrow> string" where
  "text_content t = concat (texts_of t)"

text \<open>The elements of a given tag or component in a tree, in document order.\<close>

fun elements_of :: "elem_type \<Rightarrow> ('h, 'r) node \<Rightarrow> ('h, 'r) node list" where
  "elements_of ty (Text s) = []"
| "elements_of ty (Element ty' ps cs) =
     (if ty' = ty then [Element ty' ps cs] else []) @ concat (map (elements_of ty) cs)"

text \<open>The children of an element, and the node a path of child indices leads to.\<close>

fun children_of :: "('h, 'r) node \<Rightarrow> ('h, 'r) node list" where
  "children_of (Text s) = []"
| "children_of (Element ty ps cs) = cs"

fun node_at :: "nat list \<Rightarrow> ('h, 'r) node \<Rightarrow> ('h, 'r) node option" where
  "node_at [] t = Some t"
| "node_at (i # path) (Text s) = None"
| "node_at (i # path) (Element ty ps cs) =
     (if i < length cs then node_at path (cs ! i) else None)"

text \<open>
  The event handlers a tree carries: for each attribute that holds a handler, the element,
  the attribute's name and the handler.
\<close>

fun prop_handlers :: "(string \<times> ('h, 'r) prop_value) list \<Rightarrow> (string \<times> 'h) list" where
  "prop_handlers [] = []"
| "prop_handlers ((k, Handler h) # ps) = (k, h) # prop_handlers ps"
| "prop_handlers (kv # ps) = prop_handlers ps"

fun handlers_of :: "('h, 'r) node \<Rightarrow> (elem_type \<times> string \<times> 'h) list" where
  "handlers_of (Text s) = []"
| "handlers_of (Element ty ps cs) =
     map (\<lambda>kh. (ty, kh)) (prop_handlers ps) @ concat (map handlers_of cs)"

text \<open>
  The tree with every handler and every ref forgotten: what two renders have in common
  when they differ in the identity of the functions and refs attached.
\<close>

definition erase :: "('h, 'r) node \<Rightarrow> (unit, unit) node" where
  "erase t = map_node (\<lambda>h. ()) (\<lambda>r. ()) t"

section \<open>Clicks\<close>

text \<open>
  Modelled from the spec: the \<open>Button\<close> component (\<open>@/components/ui/button\<close>) and the
  dispatch of events by the user-interface runtime are not among the sources. The spec's
  contract is "accept a label string and a callback, render static markup, invoke the
  callback on user click". A click has a target element, given by its path from the root
  (child indices); it runs the \<open>onClick\<close> handler of the target, if it has one, and then
  those of the target's ancestors from the innermost out, as a bubbling event does. A text
  is not a target, and neither is a path that leads nowhere.
\<close>

definition onClick_of :: "(string \<times> ('h, 'r) prop_value) list \<Rightarrow> 'h list" where
  "onClick_of ps = (case map_of ps ''onClick'' of Some (Handler h) \<Rightarrow> [h] | _ \<Rightarrow> [])"

fun click_handlers :: "nat list \<Rightarrow> ('h, 'r) node \<Rightarrow> 'h list option" where
  "click_handlers path (Text s) = None"
| "click_handlers [] (Element ty ps cs) = Some (onClick_of ps)"
| "click_handlers (i # path) (Element ty ps cs) =
     (if i < length cs
      then map_option (\<lambda>hs. hs @ onClick_of ps) (click_handlers path (cs ! i))
      else None)"

text \<open>
  A handler is a function \<open>() => void\<close>: it is called for its effect, so it is a function
  from the state before the call to the state after it. A click runs its handlers in
  order; a click without a target changes nothing.
\<close>

definition click :: "nat list \<Rightarrow> ('s \<Rightarrow> 's, 'r) node \<Rightarrow> 's \<Rightarrow> 's" where
  "click path t s =
    (case click_handlers path t of None \<Rightarrow> s | Some hs \<Rightarrow> fold (\<lambda>h. h) hs s)"

text \<open>The place of the button in the markup of \<open>WelcomeView\<close>: fourth child of the section.\<close>

definition button_path :: "nat list" where
  "button_path = [0, 3]"

section \<open>The program's operations\<close>









section \<open>The configuration's defaults\<close>

lemma agentName_of_env:
  "nullish (env_get env ''AGENT_NAME'') JUndefined = env_get env ''AGENT_NAME''"
  by (simp add: nullish_def env_get_def split: option.split)

text \<open>
  C1. When \<open>AGENT_NAME\<close> is not set in the process environment, the configuration is the
  object of the literal defaults, field by field and in the order of the source:
  the three texts, the four flags, the logo, accent and button text, and \<open>undefined\<close>
  for both \<open>agentName\<close> and \<open>sandboxId\<close>.
\<close>

theorem APP_CONFIG_DEFAULTS_literal:
  assumes "env ''AGENT_NAME'' = None"
  shows "APP_CONFIG_DEFAULTS env =
    [ (''companyName'', JString ''Trading Assistant''),
      (''pageTitle'', JString ''AI Trading Assistant''),
      (''pageDescription'', JString ''Your personal voice-powered portfolio analyst''),
      (''supportsChatInput'', JBoolean True),
      (''supportsVideoInput'', JBoolean False),
      (''supportsScreenShare'', JBoolean False),
      (''isPreConnectBufferEnabled'', JBoolean True),
      (''logo'', JString ''/lk-logo.svg''),
      (''accent'', JString ''#16a34a''),
      (''logoDark'', JString ''/lk-logo-dark.svg''),
      (''accentDark'', JString ''#4ade80''),
      (''startButtonText'', JString ''Analyse my portfolio''),
      (''agentName'', JUndefined),
      (''sandboxId'', JUndefined) ]"
proof -
  from assms have "env_get env ''AGENT_NAME'' = JUndefined"
    by (simp add: env_get_def)
  then show ?thesis
    by (simp add: APP_CONFIG_DEFAULTS_def nullish_def)
qed

theorem APP_CONFIG_DEFAULTS_literal_witness:
  "Map.empty ''AGENT_NAME'' = (None :: string option) \<and>
   js_prop (APP_CONFIG_DEFAULTS Map.empty) ''startButtonText'' = JString ''Analyse my portfolio'' \<and>
   js_prop (APP_CONFIG_DEFAULTS Map.empty) ''agentName'' = JUndefined"
  using APP_CONFIG_DEFAULTS_literal [of Map.empty]
  by (simp add: js_prop_def)


lemma js_prop_agentName:
  "js_prop (APP_CONFIG_DEFAULTS env) ''agentName'' = env_get env ''AGENT_NAME''"
  by (simp add: APP_CONFIG_DEFAULTS_def js_prop_def agentName_of_env)

text \<open>
  C8. \<open>?? undefined\<close> turns only an absent \<open>AGENT_NAME\<close> into \<open>undefined\<close>. A variable
  that is set comes through unchanged, the empty string included: with \<open>AGENT_NAME\<close> set
  to the empty string, \<open>agentName\<close> is the empty string and not \<open>undefined\<close>.
\<close>

theorem agentName_empty_string_kept:
  "(env ''AGENT_NAME'' = Some [] \<longrightarrow>
      js_prop (APP_CONFIG_DEFAULTS env) ''agentName'' = JString [] \<and>
      js_prop (APP_CONFIG_DEFAULTS env) ''agentName'' \<noteq> JUndefined) \<and>
   (\<forall>s. env ''AGENT_NAME'' = Some s \<longrightarrow>
      js_prop (APP_CONFIG_DEFAULTS env) ''agentName'' = JString s) \<and>
   (js_prop (APP_CONFIG_DEFAULTS env) ''agentName'' = JUndefined
      \<longleftrightarrow> env ''AGENT_NAME'' = None)"
  by (simp add: js_prop_agentName env_get_def split: option.split)

theorem agentName_empty_string_kept_witness:
  "[''AGENT_NAME'' \<mapsto> ''''] ''AGENT_NAME'' = Some [] \<and>
   js_prop (APP_CONFIG_DEFAULTS [''AGENT_NAME'' \<mapsto> '''']) ''agentName'' = JString [] \<and>
   js_prop (APP_CONFIG_DEFAULTS [''AGENT_NAME'' \<mapsto> '''']) ''agentName'' \<noteq> JUndefined"
  using agentName_empty_string_kept [of "[''AGENT_NAME'' \<mapsto> '''']"]
  by simp

lemma js_prop_other:
  "k \<noteq> ''agentName'' \<Longrightarrow>
   js_prop (APP_CONFIG_DEFAULTS env1) k = js_prop (APP_CONFIG_DEFAULTS env2) k"
  by (simp add: APP_CONFIG_DEFAULTS_def js_prop_def)

text \<open>
  C9. The configurations of two process environments have the same fields in the same
  order and agree on every field but \<open>agentName\<close>, \<open>sandboxId\<close> included: the
  configuration under one environment is the configuration under the other with the
  property at \<open>agentName\<close>'s place (the thirteenth) replaced. \<open>agentName\<close> itself
  depends on the variable \<open>AGENT_NAME\<close> alone.
\<close>

theorem only_agentName_depends_on_env:
  "map fst (APP_CONFIG_DEFAULTS env1) = map fst (APP_CONFIG_DEFAULTS env2) \<and>
   (\<forall>k. k \<noteq> ''agentName'' \<longrightarrow>
      js_prop (APP_CONFIG_DEFAULTS env1) k = js_prop (APP_CONFIG_DEFAULTS env2) k) \<and>
   APP_CONFIG_DEFAULTS env1 =
     (APP_CONFIG_DEFAULTS env2) [12 := (''agentName'', env_get env1 ''AGENT_NAME'')] \<and>
   (env1 ''AGENT_NAME'' = env2 ''AGENT_NAME'' \<longrightarrow>
      APP_CONFIG_DEFAULTS env1 = APP_CONFIG_DEFAULTS env2)"
proof -
  have 1: "map fst (APP_CONFIG_DEFAULTS env1) = map fst (APP_CONFIG_DEFAULTS env2)"
    by (simp add: APP_CONFIG_DEFAULTS_def)
  have 2: "\<forall>k. k \<noteq> ''agentName'' \<longrightarrow>
      js_prop (APP_CONFIG_DEFAULTS env1) k = js_prop (APP_CONFIG_DEFAULTS env2) k"
    using js_prop_other by blast
  have 3: "APP_CONFIG_DEFAULTS env1 =
     (APP_CONFIG_DEFAULTS env2) [12 := (''agentName'', env_get env1 ''AGENT_NAME'')]"
    by (simp add: APP_CONFIG_DEFAULTS_def agentName_of_env)
  have 4: "env1 ''AGENT_NAME'' = env2 ''AGENT_NAME'' \<longrightarrow>
      APP_CONFIG_DEFAULTS env1 = APP_CONFIG_DEFAULTS env2"
    by (simp add: APP_CONFIG_DEFAULTS_def env_get_def)
  from 1 2 3 4 show ?thesis by (intro conjI)
qed

theorem only_agentName_depends_on_env_witness:
  "js_prop (APP_CONFIG_DEFAULTS Map.empty) ''sandboxId'' =
     js_prop (APP_CONFIG_DEFAULTS [''AGENT_NAME'' \<mapsto> ''trader'', ''HOME'' \<mapsto> ''/root'']) ''sandboxId'' \<and>
   js_prop (APP_CONFIG_DEFAULTS Map.empty) ''startButtonText'' =
     js_prop (APP_CONFIG_DEFAULTS [''AGENT_NAME'' \<mapsto> ''trader'', ''HOME'' \<mapsto> ''/root'']) ''startButtonText'' \<and>
   js_prop (APP_CONFIG_DEFAULTS Map.empty) ''agentName'' \<noteq>
     js_prop (APP_CONFIG_DEFAULTS [''AGENT_NAME'' \<mapsto> ''trader'', ''HOME'' \<mapsto> ''/root'']) ''agentName''"
proof -
  let ?e = "[''AGENT_NAME'' \<mapsto> ''trader'', ''HOME'' \<mapsto> ''/root'']"
  have other: "\<forall>k. k \<noteq> ''agentName'' \<longrightarrow>
      js_prop (APP_CONFIG_DEFAULTS Map.empty) k = js_prop (APP_CONFIG_DEFAULTS ?e) k"
    using only_agentName_depends_on_env [of Map.empty ?e] by (elim conjE)
  have 1: "js_prop (APP_CONFIG_DEFAULTS Map.empty) ''sandboxId'' =
      js_prop (APP_CONFIG_DEFAULTS ?e) ''sandboxId''"
    using other by simp
  have 2: "js_prop (APP_CONFIG_DEFAULTS Map.empty) ''startButtonText'' =
      js_prop (APP_CONFIG_DEFAULTS ?e) ''startButtonText''"
    using other by simp
  have 3: "js_prop (APP_CONFIG_DEFAULTS Map.empty) ''agentName'' \<noteq>
      js_prop (APP_CONFIG_DEFAULTS ?e) ''agentName''"
    by (simp add: js_prop_agentName env_get_def)
  from 1 2 3 show ?thesis by (intro conjI)
qed

section \<open>The markup of the welcome screen\<close>

lemma WelcomeView_handlers:
  "handlers_of (WelcomeView props) = [(Component ''Button'', ''onClick'', onStartCall props)]"
  by (simp add: WelcomeView_def WelcomeImage_def)

lemma WelcomeView_button:
  "elements_of (Component ''Button'') (WelcomeView props) =
     [ Element (Component ''Button'')
         [ (''size'', Str ''lg''),
           (''onClick'', Handler (onStartCall props)),
           (''className'',
             Str ''mt-6 w-64 rounded-full font-mono text-xs font-bold tracking-wider uppercase'') ]
         [ Text (startButtonText props) ] ]"
  by (simp add: WelcomeView_def WelcomeImage_def)

text \<open>
  C2. Whatever string is passed as \<open>startButtonText\<close>, the markup has one \<open>Button\<close>
  element, its only child is that string as a text, and so the label it shows is the
  string, character for character.
\<close>

theorem button_label_is_startButtonText:
  "map children_of (elements_of (Component ''Button'') (WelcomeView props))
     = [[Text (startButtonText props)]] \<and>
   map text_content (elements_of (Component ''Button'') (WelcomeView props))
     = [startButtonText props]"
  by (simp add: WelcomeView_button text_content_def)

theorem button_label_is_startButtonText_witness:
  "map text_content (elements_of (Component ''Button'')
     (WelcomeView \<lparr>startButtonText = ''Analyse my portfolio'', onStartCall = (), ref = (),
        divProps = []\<rparr>)) = [''Analyse my portfolio''] \<and>
   map text_content (elements_of (Component ''Button'')
     (WelcomeView \<lparr>startButtonText = [], onStartCall = (), ref = (),
        divProps = [(''children'', Str ''x'')]\<rparr>)) = [[]]"
  using button_label_is_startButtonText
    [of "\<lparr>startButtonText = ''Analyse my portfolio'', onStartCall = (), ref = (), divProps = []\<rparr>"]
    button_label_is_startButtonText
    [of "\<lparr>startButtonText = [], onStartCall = (), ref = (), divProps = [(''children'', Str ''x'')]\<rparr>"]
  by simp

text \<open>
  C6. For all props the markup has the four parts: the icon (the one \<open>svg\<close> element is
  the markup of \<open>WelcomeImage\<close>, with its thirteen shapes), one heading \<open>h1\<close>, one
  \<open>Button\<close> holding the label, and two paragraphs, the second of which is the
  disclaimer.
\<close>

theorem WelcomeView_four_parts:
  "elements_of (Host ''svg'') (WelcomeView props) = [WelcomeImage] \<and>
   length (children_of (WelcomeImage :: ('h, 'r) node)) = 13 \<and>
   elements_of (Host ''h1'') (WelcomeView props) =
     [ Element (Host ''h1'')
         [ (''className'', Str ''text-foreground text-xl font-semibold tracking-tight'') ]
         [ Text ''AI Trading Assistant'' ] ] \<and>
   map children_of (elements_of (Component ''Button'') (WelcomeView props))
     = [[Text (startButtonText props)]] \<and>
   map text_content (elements_of (Host ''p'') (WelcomeView props)) =
     [ ''Ask about your portfolio, analyse your trades, check live prices, or create a new pie ''
         @ em_dash @ '' all by voice.'',
       ''Powered by Trading 212 '' @ middle_dot @ '' For informational use only ''
         @ middle_dot @ '' Not financial advice.'' ]"
proof -
  have icon: "elements_of (Host ''svg'') (WelcomeView props) = [WelcomeImage]"
    by (simp add: WelcomeView_def WelcomeImage_def)
  have shapes: "length (children_of (WelcomeImage :: ('h, 'r) node)) = 13"
    by (simp add: WelcomeImage_def)
  have heading: "elements_of (Host ''h1'') (WelcomeView props) =
     [ Element (Host ''h1'')
         [ (''className'', Str ''text-foreground text-xl font-semibold tracking-tight'') ]
         [ Text ''AI Trading Assistant'' ] ]"
    by (simp add: WelcomeView_def WelcomeImage_def)
  have button: "map children_of (elements_of (Component ''Button'') (WelcomeView props))
     = [[Text (startButtonText props)]]"
    by (simp add: WelcomeView_button)
  have paragraphs: "map text_content (elements_of (Host ''p'') (WelcomeView props)) =
     [ ''Ask about your portfolio, analyse your trades, check live prices, or create a new pie ''
         @ em_dash @ '' all by voice.'',
       ''Powered by Trading 212 '' @ middle_dot @ '' For informational use only ''
         @ middle_dot @ '' Not financial advice.'' ]"
    by (simp add: WelcomeView_def WelcomeImage_def text_content_def)
  from icon shapes heading button paragraphs show ?thesis
    by (intro conjI)
qed

section \<open>Clicks on the welcome screen\<close>

lemma funpow_cong_all:
  assumes "\<And>s. f s = g s"
  shows "(f ^^ n) s = (g ^^ n) s"
proof -
  have "f = g" by (rule ext) (rule assms)
  then show ?thesis by simp
qed

lemma click_button: "click button_path (WelcomeView props) s = onStartCall props s"
  by (simp add: click_def WelcomeView_def button_path_def onClick_of_def)

text \<open>
  C3. The callback passed as \<open>onStartCall\<close> is the only event handler in the markup: it is
  the \<open>onClick\<close> of the \<open>Button\<close>, and no other attribute of any element holds a
  handler, whatever else the caller passed. The element at \<open>button_path\<close> is that
  button; a click on it reaches exactly one handler, the callback, so the state after the
  click is the state after one call of the callback, and after \<open>n\<close> clicks it is the
  state after \<open>n\<close> calls.
\<close>

theorem onStartCall_only_handler_once_per_click:
  "handlers_of (WelcomeView props) = [(Component ''Button'', ''onClick'', onStartCall props)] \<and>
   node_at button_path (WelcomeView props) =
     Some (Element (Component ''Button'')
       [ (''size'', Str ''lg''),
         (''onClick'', Handler (onStartCall props)),
         (''className'',
           Str ''mt-6 w-64 rounded-full font-mono text-xs font-bold tracking-wider uppercase'') ]
       [ Text (startButtonText props) ]) \<and>
   click_handlers button_path (WelcomeView props) = Some [onStartCall props] \<and>
   click button_path (WelcomeView props) s = onStartCall props s \<and>
   (click button_path (WelcomeView props) ^^ n) s = (onStartCall props ^^ n) s"
proof -
  have 1: "handlers_of (WelcomeView props) =
      [(Component ''Button'', ''onClick'', onStartCall props)]"
    by (rule WelcomeView_handlers)
  have 2: "node_at button_path (WelcomeView props) =
     Some (Element (Component ''Button'')
       [ (''size'', Str ''lg''),
         (''onClick'', Handler (onStartCall props)),
         (''className'',
           Str ''mt-6 w-64 rounded-full font-mono text-xs font-bold tracking-wider uppercase'') ]
       [ Text (startButtonText props) ])"
    by (simp add: WelcomeView_def button_path_def)
  have 3: "click_handlers button_path (WelcomeView props) = Some [onStartCall props]"
    by (simp add: WelcomeView_def button_path_def onClick_of_def)
  have 4: "click button_path (WelcomeView props) s = onStartCall props s"
    by (rule click_button)
  have 5: "(click button_path (WelcomeView props) ^^ n) s = (onStartCall props ^^ n) s"
    by (rule funpow_cong_all) (rule click_button)
  from 1 2 3 4 5 show ?thesis by (intro conjI)
qed

theorem onStartCall_only_handler_once_per_click_witness:
  "(click button_path
      (WelcomeView \<lparr>startButtonText = ''Go'', onStartCall = Suc, ref = (), divProps = []\<rparr>) ^^ 3) 0 = 3"
proof -
  let ?p = "\<lparr>startButtonText = ''Go'', onStartCall = Suc, ref = (), divProps = []\<rparr>"
  have "(click button_path (WelcomeView ?p) ^^ 3) 0 = (onStartCall ?p ^^ 3) 0"
    using onStartCall_only_handler_once_per_click [of ?p 0 3] by (elim conjE)
  also have "\<dots> = 3"
    by (simp add: numeral_3_eq_3)
  finally show ?thesis .
qed


section \<open>What the markup depends on\<close>

lemma erase_WelcomeView:
  "erase (WelcomeView props) =
     WelcomeView \<lparr>startButtonText = startButtonText props, onStartCall = (), ref = (),
       divProps = []\<rparr>"
  by (simp add: WelcomeView_def WelcomeImage_def erase_def)

lemma texts_of_WelcomeView:
  "texts_of (WelcomeView props) =
     [ ''AI Trading Assistant'',
       ''Ask about your portfolio, analyse your trades, check live prices, or create a new pie ''
         @ em_dash @ '' all by voice.'',
       startButtonText props,
       ''Powered by Trading 212 '' @ middle_dot @ '' For informational use only ''
         @ middle_dot @ '' Not financial advice.'' ]"
  by (simp add: WelcomeView_def WelcomeImage_def)

text \<open>
  C10. Two renders with the same \<open>startButtonText\<close> give the same tree once the ref and
  the handler are forgotten, whatever the callbacks, refs and other props were. The icon,
  the heading and the two paragraphs are the same in every render, and the texts shown
  are three literals and the label.
\<close>

theorem WelcomeView_depends_on_label_only:
  "(startButtonText p = startButtonText q \<longrightarrow>
      erase (WelcomeView p) = erase (WelcomeView q)) \<and>
   elements_of (Host ''svg'') (erase (WelcomeView p)) =
     elements_of (Host ''svg'') (erase (WelcomeView q)) \<and>
   elements_of (Host ''h1'') (erase (WelcomeView p)) =
     elements_of (Host ''h1'') (erase (WelcomeView q)) \<and>
   elements_of (Host ''p'') (erase (WelcomeView p)) =
     elements_of (Host ''p'') (erase (WelcomeView q)) \<and>
   texts_of (WelcomeView p) =
     [ ''AI Trading Assistant'',
       ''Ask about your portfolio, analyse your trades, check live prices, or create a new pie ''
         @ em_dash @ '' all by voice.'',
       startButtonText p,
       ''Powered by Trading 212 '' @ middle_dot @ '' For informational use only ''
         @ middle_dot @ '' Not financial advice.'' ]"
proof -
  have same: "startButtonText p = startButtonText q \<longrightarrow>
      erase (WelcomeView p) = erase (WelcomeView q)"
    by (simp add: erase_WelcomeView)
  have icon: "elements_of (Host ''svg'') (erase (WelcomeView p)) =
      elements_of (Host ''svg'') (erase (WelcomeView q))"
    by (simp add: erase_WelcomeView) (simp add: WelcomeView_def WelcomeImage_def)
  have heading: "elements_of (Host ''h1'') (erase (WelcomeView p)) =
      elements_of (Host ''h1'') (erase (WelcomeView q))"
    by (simp add: erase_WelcomeView) (simp add: WelcomeView_def WelcomeImage_def)
  have paragraphs: "elements_of (Host ''p'') (erase (WelcomeView p)) =
      elements_of (Host ''p'') (erase (WelcomeView q))"
    by (simp add: erase_WelcomeView) (simp add: WelcomeView_def WelcomeImage_def)
  from same icon heading paragraphs texts_of_WelcomeView [of p]
  show ?thesis by (intro conjI)
qed

theorem WelcomeView_depends_on_label_only_witness:
  "erase (WelcomeView \<lparr>startButtonText = ''Go'', onStartCall = Suc, ref = Some (1::nat),
       divProps = [(''onClick'', Handler (\<lambda>n. n + 2))]\<rparr>) =
   erase (WelcomeView \<lparr>startButtonText = ''Go'', onStartCall = (\<lambda>n::nat. 0::nat),
       ref = (None :: nat option), divProps = []\<rparr>)"
proof -
  let ?p = "\<lparr>startButtonText = ''Go'', onStartCall = Suc, ref = Some (1::nat),
       divProps = [(''onClick'', Handler (\<lambda>n. n + 2))]\<rparr>"
  let ?q = "\<lparr>startButtonText = ''Go'', onStartCall = (\<lambda>n::nat. 0::nat),
       ref = None :: nat option, divProps = []\<rparr>"
  have "startButtonText ?p = startButtonText ?q"
    by simp
  moreover have "startButtonText ?p = startButtonText ?q \<longrightarrow>
      erase (WelcomeView ?p) = erase (WelcomeView ?q)"
    using WelcomeView_depends_on_label_only [of ?p ?q] by (elim conjE)
  ultimately show ?thesis by (rule rev_mp)
qed

text \<open>
  C4, as stated, fails: \<open>WelcomeView\<close> does not read the configuration. With the default
  configuration and the default label, the configuration's \<open>pageDescription\<close> is none of
  the texts rendered.
\<close>

theorem pageDescription_not_rendered:
  "js_prop (APP_CONFIG_DEFAULTS Map.empty) ''pageDescription''
     \<notin> set (map JString (texts_of (WelcomeView
         \<lparr>startButtonText = ''Analyse my portfolio'', onStartCall = (), ref = (),
          divProps = []\<rparr>)))"
  by (simp add: APP_CONFIG_DEFAULTS_def js_prop_def texts_of_WelcomeView
      em_dash_def middle_dot_def)

text \<open>
  C4, amended. \<open>WelcomeView\<close> refers to no field of \<open>APP_CONFIG_DEFAULTS\<close>: its module
  imports \<open>Button\<close> only, and its markup is a function of its props. The texts rendered
  are the heading, the description, the label and the disclaimer: the label is the
  \<open>startButtonText\<close> prop and the other three are literals of the component. In every
  environment the heading literal equals the configuration's \<open>pageTitle\<close>, and the
  description literal differs from its \<open>pageDescription\<close>.
\<close>

theorem WelcomeView_texts_literals_and_label:
  "texts_of (WelcomeView props) =
     [ ''AI Trading Assistant'',
       ''Ask about your portfolio, analyse your trades, check live prices, or create a new pie ''
         @ em_dash @ '' all by voice.'',
       startButtonText props,
       ''Powered by Trading 212 '' @ middle_dot @ '' For informational use only ''
         @ middle_dot @ '' Not financial advice.'' ] \<and>
   js_prop (APP_CONFIG_DEFAULTS env) ''pageTitle'' = JString ''AI Trading Assistant'' \<and>
   js_prop (APP_CONFIG_DEFAULTS env) ''pageDescription'' \<noteq>
     JString (''Ask about your portfolio, analyse your trades, check live prices, or create a new pie ''
         @ em_dash @ '' all by voice.'')"
  by (simp add: texts_of_WelcomeView) (simp add: APP_CONFIG_DEFAULTS_def js_prop_def)

section \<open>The configuration over a run of the program\<close>


















end
